theory Spec2Isabelle
  imports Main "HOL-Library.AList"
begin

section \<open>Service lifecycle of the beacon node (\<open>BeaconNode.start\<close>, \<open>BeaconNode.stop\<close>)\<close>

text \<open>
  The node owns seven services, one per field of the class: \<open>db\<close>, \<open>network\<close>,
  \<open>eth1\<close>, \<open>chain\<close>, \<open>opPool\<close>, \<open>sync\<close> and \<open>rpc\<close>. Each satisfies the interface
  \<open>Service\<close> with the two asynchronous operations \<open>start\<close> and \<open>stop\<close>.
\<close>

datatype service = Db | Network | Eth1 | Chain | OpPool | Sync | Rpc

datatype call = Start service | Stop service

text \<open>
  What the node does is observed as a trace: a message written to the logger, the
  invocation of a service operation, and the settlement of the promise that the
  operation returned (resolved, or rejected with a cause).
\<close>

datatype 'e event =
    Info string
  | Invoke call
  | Resolved call
  | Rejected call 'e

text \<open>
  What becomes of a promise: it resolves (with no value: the operations are of type
  \<open>Promise<void>\<close>), it rejects with a cause, or it never settles.
\<close>

datatype 'e outcome = Resolves | Rejects 'e | Pends

text \<open>
  The services themselves are outside the node. Their behaviour is a parameter: an
  operation runs in the current world \<open>'w\<close> (everything the services share and
  change), yields the next world, and returns a promise with one of the three
  outcomes. An asynchronous method of the node is a function from the state (world
  and trace so far) to the outcome of its own promise and the state it leaves.
\<close>

type_synonym ('w, 'e) services = "call \<Rightarrow> 'w \<Rightarrow> 'e outcome \<times> 'w"

type_synonym ('w, 'e) node_state = "'w \<times> 'e event list"

type_synonym ('w, 'e) async = "('w, 'e) node_state \<Rightarrow> 'e outcome \<times> ('w, 'e) node_state"


text \<open>
  \<open>await this.x.op()\<close>: the operation is invoked, and the method goes on only
  when the returned promise has settled; a rejection is thrown at the \<open>await\<close>,
  and a promise that never settles leaves the method suspended there.
\<close>

definition await :: "('w, 'e) services \<Rightarrow> call \<Rightarrow> ('w, 'e) async" where
  "await srv c = (\<lambda>(w, tr).
     case srv c w of
       (Resolves, w') \<Rightarrow> (Resolves, (w', tr @ [Invoke c, Resolved c]))
     | (Rejects e, w') \<Rightarrow> (Rejects e, (w', tr @ [Invoke c, Rejected c e]))
     | (Pends, w') \<Rightarrow> (Pends, (w', tr @ [Invoke c])))"

text \<open>
  Two statements in sequence inside an \<open>async\<close> function with no \<open>try\<close>: when
  the first one throws, the function rejects with what was thrown and the second
  statement is not run; when the first one stays suspended, the second statement
  is not reached.
\<close>

definition andThen :: "('w, 'e) async \<Rightarrow> ('w, 'e) async \<Rightarrow> ('w, 'e) async" where
  "andThen p q = (\<lambda>s.
     case p s of
       (Resolves, s') \<Rightarrow> q s'
     | (Rejects e, s') \<Rightarrow> (Rejects e, s')
     | (Pends, s') \<Rightarrow> (Pends, s'))"


definition stop :: "('w, 'e) services \<Rightarrow> ('w, 'e) async" where
  "stop srv =
     andThen (await srv (Stop Rpc))
    (andThen (await srv (Stop Sync))
    (andThen (await srv (Stop OpPool))
    (andThen (await srv (Stop Chain))
    (andThen (await srv (Stop Eth1))
    (andThen (await srv (Stop Network))
             (await srv (Stop Db)))))))"

subsection \<open>Reading a trace\<close>


definition stop_order :: "service list" where
  "stop_order = [Rpc, Sync, OpPool, Chain, Eth1, Network, Db]"

text \<open>The operations invoked in a trace, in the order of their invocation.\<close>

fun invoked :: "'e event list \<Rightarrow> call list" where
  "invoked [] = []"
| "invoked (Invoke c # tr) = c # invoked tr"
| "invoked (_ # tr) = invoked tr"

text \<open>The operations of a trace whose promise resolved.\<close>

fun completed :: "'e event list \<Rightarrow> call list" where
  "completed [] = []"
| "completed (Resolved c # tr) = c # completed tr"
| "completed (_ # tr) = completed tr"


text \<open>The trace of a list of operations that all resolve, one after the other.\<close>

definition resolved_steps :: "call list \<Rightarrow> 'e event list" where
  "resolved_steps cs = concat (map (\<lambda>c. [Invoke c, Resolved c]) cs)"

text \<open>A run of \<open>await\<close> statements over a list of operations, as \<open>start\<close> and \<open>stop\<close> are.\<close>

fun awaitAll :: "('w, 'e) services \<Rightarrow> call list \<Rightarrow> ('w, 'e) async" where
  "awaitAll srv [] = (\<lambda>s. (Resolves, s))"
| "awaitAll srv (c # cs) = andThen (await srv c) (awaitAll srv cs)"

text \<open>
  The values a rejection can carry in the examples: an opaque cause raised by a
  service, or one of the two wrappers named by the specification.
\<close>

datatype thrown =
    Cause string
  | StartupError service thrown
  | ShutdownError "(service \<times> thrown) list"

text \<open>Example services: one operation rejects with a cause, every other one resolves.\<close>

definition failing_at :: "call \<Rightarrow> string \<Rightarrow> (unit, thrown) services" where
  "failing_at c msg = (\<lambda>c' w. (if c' = c then Rejects (Cause msg) else Resolves, w))"



section \<open>Paths of the beacon node (\<open>getBeaconPaths\<close>)\<close>

text \<open>
  The argument of \<open>getBeaconPaths\<close> has type
  \<open>Partial<IBeaconPaths> & Pick<IGlobalArgs, "rootDir">\<close>: every field of
  \<open>IBeaconPaths\<close> may be absent (\<open>None\<close> is \<open>undefined\<close>), \<open>rootDir\<close> is present.
\<close>

record options =
  rootDir :: string
  beaconDir :: "string option"
  peerStoreDir :: "string option"
  dbDir :: "string option"
  configFile :: "string option"
  peerIdFile :: "string option"
  enrFile :: "string option"
  logFile :: "string option"

text \<open>
  The result of \<open>getGlobalPaths\<close>, of which \<open>getBeaconPaths\<close> reads the field
  \<open>rootDir\<close> only.
\<close>

record IGlobalPaths =
  rootDir :: string

record IBeaconPaths =
  beaconDir :: string
  peerStoreDir :: string
  dbDir :: string
  configFile :: string
  peerIdFile :: string
  enrFile :: string
  logFile :: "string option"

text \<open>
  \<open>x || d\<close> on an optional string: \<open>undefined\<close> and the empty string are both
  falsy, so both give the default.
\<close>

definition or_default :: "string option \<Rightarrow> string \<Rightarrow> string" where
  "or_default x d = (case x of None \<Rightarrow> d | Some s \<Rightarrow> if s = [] then d else s)"

text \<open>
  \<open>x && f(x)\<close> on an optional string: a falsy \<open>x\<close> (\<open>undefined\<close> or the empty
  string) is the result itself, otherwise the result is \<open>f(x)\<close>.
\<close>

definition and_then :: "string option \<Rightarrow> (string \<Rightarrow> string) \<Rightarrow> string option" where
  "and_then x f = (case x of None \<Rightarrow> None | Some s \<Rightarrow> if s = [] then Some s else Some (f s))"

text \<open>
  \<open>getGlobalPaths\<close> (\<open>paths/global\<close>) and \<open>joinIfRelative\<close> (\<open>util\<close>) are imported
  from files that are not part of the sources at hand; they are parameters of the
  model of \<open>getBeaconPaths\<close>.
\<close>

definition getBeaconPaths ::
  "(options \<Rightarrow> IGlobalPaths) \<Rightarrow> (string \<Rightarrow> string \<Rightarrow> string) \<Rightarrow> options \<Rightarrow> IBeaconPaths" where
  "getBeaconPaths getGlobalPaths joinIfRelative opts =
     (let globalPaths = getGlobalPaths opts;
          beaconDir = IGlobalPaths.rootDir globalPaths;
          dbDir = joinIfRelative beaconDir (or_default (options.dbDir opts) ''chain-db'');
          peerStoreDir = joinIfRelative beaconDir (or_default (options.dbDir opts) ''peerstore'');
          configFile = joinIfRelative beaconDir (or_default (options.configFile opts) ''beacon.config.json'');
          peerIdFile = joinIfRelative beaconDir (or_default (options.peerIdFile opts) ''peer-id.json'');
          enrFile = joinIfRelative beaconDir (or_default (options.enrFile opts) ''enr.json'');
          logFile = and_then (options.logFile opts) (joinIfRelative beaconDir)
      in \<lparr> beaconDir = beaconDir,
           peerStoreDir = peerStoreDir,
           dbDir = dbDir,
           configFile = configFile,
           peerIdFile = peerIdFile,
           enrFile = enrFile,
           logFile = logFile \<rparr>)"

text \<open>
  Modelled from the spec: \<open>joinIfRelative\<close> is missing from the sources. "If the
  supplied value is an absolute filesystem path, return it unchanged; otherwise
  join it onto base." A path is taken as absolute when it begins with a slash, and
  joining puts one slash between the base and the relative name.
\<close>

definition isAbsolute :: "string \<Rightarrow> bool" where
  "isAbsolute p = (case p of [] \<Rightarrow> False | c # _ \<Rightarrow> c = CHR ''/'')"

definition joinIfRelative :: "string \<Rightarrow> string \<Rightarrow> string" where
  "joinIfRelative base p = (if isAbsolute p then p else base @ ''/'' @ p)"

text \<open>
  Modelled from the spec: \<open>getGlobalPaths\<close> is missing from the sources. "\<open>base\<close> is
  required and denotes the node instance's root directory": the root directory of
  the result is the one the caller gave.
\<close>

definition getGlobalPaths :: "options \<Rightarrow> IGlobalPaths" where
  "getGlobalPaths opts = \<lparr> IGlobalPaths.rootDir = options.rootDir opts \<rparr>"

text \<open>The argument that supplies the root directory and no override.\<close>

definition only_root :: "string \<Rightarrow> options" where
  "only_root r = \<lparr> options.rootDir = r, options.beaconDir = None,
     options.peerStoreDir = None, options.dbDir = None, options.configFile = None,
     options.peerIdFile = None, options.enrFile = None, options.logFile = None \<rparr>"

section \<open>Configuration values and their composition\<close>

text \<open>
  The options of the node are a JavaScript value: a tree of plain objects with
  scalars, arrays, class instances (the logging options are a \<open>Map\<close> from a module
  to a log level) and classes (the API constructors) at its leaves.
\<close>

text \<open>The members of the enumeration \<open>Module\<close> (\<open>logger/abstract\<close>) that the constructor names.\<close>

datatype Module = DATABASE | NETWORK | ETH1 | CHAIN | SYNC

text \<open>A property key: a name, an array index, or a module as the key of the logging map.\<close>

datatype key = Name string | Index nat | ModuleKey Module

datatype cval =
    Undefined
  | Null
  | Bool bool
  | Num int
  | Str string
  | Arr "cval list"
  | Rec "(key \<times> cval) list"
  | Inst string "(key \<times> cval) list"
  | Class string

text \<open>
  \<open>Rec\<close> is a plain object (an object literal), \<open>Inst c fs\<close> an instance of the class
  \<open>c\<close> with the entries or own fields \<open>fs\<close>, \<open>Class c\<close> the class \<open>c\<close> itself, which
  \<open>new\<close> can be applied to. In an object the property \<open>"0"\<close> is the key \<open>Index 0\<close>.
\<close>

text \<open>
  Modelled from the spec: \<open>isPlainObject\<close> (\<open>util/objects\<close>) is missing from the
  sources. A plain structural record is "a pure nested mapping carrying no live
  behavior"; arrays and instances of a stateful or opaque type are not.
\<close>

fun isPlainObject :: "cval \<Rightarrow> bool" where
  "isPlainObject (Rec fs) = True"
| "isPlainObject v = False"

text \<open>
  Modelled from the spec: \<open>deepmerge\<close>, called with \<open>isMergeableObject: isPlainObject\<close>,
  is a library outside the sources. "Recursive merge keyed by field name present in
  either tree. Recurse only when the value at a key is a plain structural record in
  both trees. Any other kind of value is replaced wholesale by the override if
  present, never merged field-by-field." The keys of the defaults come first, in
  their order, then the keys that only the overrides have.
\<close>

fun compose :: "(key \<times> cval) list \<Rightarrow> (key \<times> cval) list \<Rightarrow> (key \<times> cval) list"
  and composeValue :: "cval \<Rightarrow> cval \<Rightarrow> cval" where
  "compose ds os =
     map (\<lambda>(k, d). (k, case map_of os k of None \<Rightarrow> d | Some ov \<Rightarrow> composeValue d ov)) ds @
     filter (\<lambda>(k, ov). map_of ds k = None) os"
| "composeValue (Rec ds) (Rec os) = Rec (compose ds os)"
| "composeValue d ov = ov"


section \<open>Construction of the beacon node (\<open>BeaconNode.constructor\<close>)\<close>

subsection \<open>Reading configuration values\<close>

text \<open>
  What can be thrown while the constructor runs. The constructor has no \<open>throw\<close> of
  its own: a \<open>TypeError\<close> comes from the language when a property of \<open>undefined\<close> or
  \<open>null\<close> is read, or when something that is no function or class is called.
  \<open>ConfigurationError\<close> is the error kind that the specification names for
  malformed options.
\<close>

datatype error = TypeError string | ConfigurationError string

definition bindE :: "error + 'a \<Rightarrow> ('a \<Rightarrow> error + 'b) \<Rightarrow> error + 'b" where
  "bindE m f = (case m of Inl e \<Rightarrow> Inl e | Inr x \<Rightarrow> f x)"

definition lookup :: "(key \<times> cval) list \<Rightarrow> key \<Rightarrow> cval" where
  "lookup fs k = (case map_of fs k of None \<Rightarrow> Undefined | Some v \<Rightarrow> v)"

text \<open>
  \<open>v.k\<close> and \<open>v[i]\<close>: reading a property of \<open>undefined\<close> or \<open>null\<close> throws; a
  property that is not there reads as \<open>undefined\<close>. The names read by the
  constructor are option names, none of them a built-in property of arrays,
  strings, numbers or classes.
\<close>

fun getProp :: "cval \<Rightarrow> key \<Rightarrow> error + cval" where
  "getProp Undefined k = Inl (TypeError ''cannot read property of undefined'')"
| "getProp Null k = Inl (TypeError ''cannot read property of null'')"
| "getProp (Rec fs) k = Inr (lookup fs k)"
| "getProp (Inst c fs) k = Inr (lookup fs k)"
| "getProp (Arr xs) (Index i) = Inr (if i < length xs then xs ! i else Undefined)"
| "getProp (Str s) (Index i) = Inr (if i < length s then Str [s ! i] else Undefined)"
| "getProp v k = Inr Undefined"

text \<open>
  \<open>{...v}\<close>: the own enumerable properties of \<open>v\<close>; spreading \<open>undefined\<close>, \<open>null\<close>,
  a number or a boolean adds nothing.
\<close>

fun spread :: "cval \<Rightarrow> (key \<times> cval) list" where
  "spread (Rec fs) = fs"
| "spread (Inst c fs) = fs"
| "spread (Arr xs) = zip (map Index [0 ..< length xs]) xs"
| "spread (Str s) = zip (map Index [0 ..< length s]) (map (\<lambda>c. Str [c]) s)"
| "spread v = []"

text \<open>
  \<open>m.get(Module.X)\<close>: only a \<open>Map\<close> has the method; on \<open>undefined\<close> and \<open>null\<close>
  reading \<open>get\<close> throws, on any other value \<open>get\<close> is not a function.
\<close>

fun mapGet :: "cval \<Rightarrow> Module \<Rightarrow> error + cval" where
  "mapGet Undefined m = Inl (TypeError ''cannot read property get of undefined'')"
| "mapGet Null m = Inl (TypeError ''cannot read property get of null'')"
| "mapGet (Inst c es) m =
     (if c = ''Map'' then Inr (lookup es (ModuleKey m)) else Inl (TypeError ''get is not a function''))"
| "mapGet v m = Inl (TypeError ''get is not a function'')"

text \<open>
  The object literal \<open>{...this.conf.section, loggingLevel: this.conf.loggingOptions.get(module)}\<close>,
  which the constructor builds for six of the services.
\<close>

definition withLoggingLevel :: "cval \<Rightarrow> string \<Rightarrow> Module \<Rightarrow> error + cval" where
  "withLoggingLevel conf section module =
     bindE (getProp conf (Name section)) (\<lambda>sectionOpts.
     bindE (getProp conf (Name ''loggingOptions'')) (\<lambda>loggingOptions.
     bindE (mapGet loggingOptions module) (\<lambda>level.
       Inr (Rec (AList.update (Name ''loggingLevel'') level (spread sectionOpts))))))"

subsection \<open>Objects and references\<close>

text \<open>
  Objects live in a heap, a list of objects addressed by position; \<open>new\<close> appends.
  A reference is the address of an object, or \<open>None\<close> for \<open>undefined\<close>: a field of
  \<open>this\<close> reads as \<open>undefined\<close> until the constructor has assigned it.
\<close>

type_synonym ref = "nat option"

datatype promise_state = Pending | Fulfilled | Failed

text \<open>
  Where a promise comes from: the call \<open>createPeerId()\<close>, or \<open>p.then(callback)\<close>
  with one of the two callbacks of the constructor.
\<close>

datatype callback = InitializePeerInfo | NewNodejsNode

datatype origin = CreatePeerId | Then ref callback

text \<open>
  The classes instantiated by the constructor are imported; an instance is
  recorded with the arguments its constructor received: the options first, then
  the fields of the modules object, in the order the source lists them.
\<close>

datatype obj =
    Given string
  | New_WinstonLogger
  | New_ReputationStore
  | New_LevelDbController cval cval
  | New_BeaconDB (db_config: ref) (db_controller: ref)
  | New_Promise (promise_state: promise_state) (promise_origin: origin)
  | New_SyncRpc (rpc_opts: cval) (rpc_config: ref) (rpc_db: ref) (rpc_chain: ref)
      (rpc_network: ref) (rpc_reps: ref)
  | New_Libp2pNetwork (network_opts: cval) (network_config: ref) (network_libp2p: ref)
  | New_EthersEth1Notifier (eth1_opts: cval) (eth1_config: ref)
  | New_OpPool (opPool_opts: cval) (opPool_eth1: ref) (opPool_db: ref)
  | New_BeaconChain (chain_opts: cval) (chain_config: ref) (chain_db: ref) (chain_eth1: ref)
      (chain_opPool: ref)
  | New_Sync (sync_opts: cval) (sync_config: ref) (sync_db: ref) (sync_eth1: ref)
      (sync_chain: ref) (sync_opPool: ref) (sync_network: ref) (sync_reps: ref) (sync_rpc: ref)
  | New_WSServer (ws_opts: cval)
  | New_Api (api_class: string) (api_opts: cval) (api_config: ref) (api_chain: ref)
      (api_db: ref) (api_eth1: ref)
  | New_JSONRPC (jsonrpc_opts: cval) (jsonrpc_transports: "ref list") (jsonrpc_apis: "ref list")

type_synonym heap = "obj list"

definition new :: "heap \<Rightarrow> obj \<Rightarrow> ref \<times> heap" where
  "new h x = (Some (length h), h @ [x])"

definition deref :: "heap \<Rightarrow> ref \<Rightarrow> obj option" where
  "deref h r = (case r of None \<Rightarrow> None | Some a \<Rightarrow> if a < length h then Some (h ! a) else None)"

text \<open>The fields of the class; \<open>conf\<close> is a value, the others hold references.\<close>

record BeaconNode =
  conf :: cval
  config :: ref
  db :: ref
  eth1 :: ref
  network :: ref
  chain :: ref
  opPool :: ref
  rpc :: ref
  sync :: ref
  reps :: ref
  logger :: ref

text \<open>\<open>this\<close> when the constructor is entered: no field is assigned yet.\<close>

definition this0 :: BeaconNode where
  "this0 = \<lparr> conf = Undefined, config = None, db = None, eth1 = None, network = None,
     chain = None, opPool = None, rpc = None, sync = None, reps = None, logger = None \<rparr>"

text \<open>
  What the constructor takes from other modules: the merge function (\<open>deepmerge\<close>
  with the \<open>isMergeableObject\<close> option), the default options (\<open>defaultConf\<close>), and
  the state of the promise that \<open>createPeerId()\<close> returns.
\<close>

record imported =
  deepmerge :: "cval \<Rightarrow> cval \<Rightarrow> cval"
  defaultConf :: cval
  createPeerId :: promise_state

text \<open>
  \<open>this.conf.api.apis.map((Api) => new Api({}, {config, chain, db, eth1}))\<close> on the
  elements of the array: each element must be a class.
\<close>

fun newApis :: "cval list \<Rightarrow> ref \<Rightarrow> ref \<Rightarrow> ref \<Rightarrow> ref \<Rightarrow> heap \<Rightarrow> error + (ref list \<times> heap)" where
  "newApis [] cfg ch d e h = Inr ([], h)"
| "newApis (Class c # as) cfg ch d e h =
     (let (r, h1) = new h (New_Api c (Rec []) cfg ch d e)
      in bindE (newApis as cfg ch d e h1) (\<lambda>(rs, h2). Inr (r # rs, h2)))"
| "newApis (v # as) cfg ch d e h = Inl (TypeError ''Api is not a constructor'')"

text \<open>\<open>apis.map(...)\<close>: only an array has the method.\<close>

fun mapApis :: "cval \<Rightarrow> ref \<Rightarrow> ref \<Rightarrow> ref \<Rightarrow> ref \<Rightarrow> heap \<Rightarrow> error + (ref list \<times> heap)" where
  "mapApis Undefined cfg ch d e h = Inl (TypeError ''cannot read property map of undefined'')"
| "mapApis Null cfg ch d e h = Inl (TypeError ''cannot read property map of null'')"
| "mapApis (Arr as) cfg ch d e h = newApis as cfg ch d e h"
| "mapApis v cfg ch d e h = Inl (TypeError ''map is not a function'')"

text \<open>
  The constructor, statement by statement. It takes the options \<open>opts\<close>, the
  references \<open>config\<close> and \<open>logger\<close> (\<open>None\<close> when the caller gives no logger) and
  the heap, and returns the node and the heap with the new objects, or what was
  thrown.
\<close>

definition BeaconNode_constructor ::
  "imported \<Rightarrow> cval \<Rightarrow> ref \<Rightarrow> ref \<Rightarrow> heap \<Rightarrow> error + (BeaconNode \<times> heap)" where
  "BeaconNode_constructor imp opts cfg lg h0 =
    (let this = this0 \<lparr> conf := deepmerge imp (defaultConf imp) opts \<rparr>;
         this = this \<lparr> config := cfg \<rparr>;
         (l, h) = (case lg of Some a \<Rightarrow> (lg, h0) | None \<Rightarrow> new h0 New_WinstonLogger);
         this = this \<lparr> logger := l \<rparr>;
         (r, h) = new h New_ReputationStore;
         this = this \<lparr> reps := r \<rparr>
     in bindE (withLoggingLevel (conf this) ''db'' DATABASE) (\<lambda>dbOpts.
        let (controller, h) = new h (New_LevelDbController dbOpts (Rec []));
            (d, h) = new h (New_BeaconDB cfg controller);
            this = this \<lparr> db := d \<rparr>;
            (p, h) = new h (New_Promise (createPeerId imp) CreatePeerId);
            (p, h) = new h (New_Promise Pending (Then p InitializePeerInfo));
            (libp2p, h) = new h (New_Promise Pending (Then p NewNodejsNode))
        in bindE (withLoggingLevel (conf this) ''sync'' NETWORK) (\<lambda>rpcOpts.
        let (syncRpc, h) = new h (New_SyncRpc rpcOpts cfg (db this) (chain this) (network this) (reps this))
        in bindE (withLoggingLevel (conf this) ''network'' NETWORK) (\<lambda>networkOpts.
        let (n, h) = new h (New_Libp2pNetwork networkOpts cfg libp2p);
            this = this \<lparr> network := n \<rparr>
        in bindE (withLoggingLevel (conf this) ''eth1'' ETH1) (\<lambda>eth1Opts.
        let (e, h) = new h (New_EthersEth1Notifier eth1Opts cfg);
            this = this \<lparr> eth1 := e \<rparr>
        in bindE (getProp (conf this) (Name ''opPool'')) (\<lambda>opPoolOpts.
        let (op, h) = new h (New_OpPool opPoolOpts (eth1 this) (db this));
            this = this \<lparr> opPool := op \<rparr>
        in bindE (withLoggingLevel (conf this) ''chain'' CHAIN) (\<lambda>chainOpts.
        let (c, h) = new h (New_BeaconChain chainOpts cfg (db this) (eth1 this) (opPool this));
            this = this \<lparr> chain := c \<rparr>
        in bindE (withLoggingLevel (conf this) ''sync'' SYNC) (\<lambda>syncOpts.
        let (s, h) = new h (New_Sync syncOpts cfg (db this) (eth1 this) (chain this) (opPool this)
                              (network this) (reps this) syncRpc);
            this = this \<lparr> sync := s \<rparr>
        in bindE (getProp (conf this) (Name ''api'')) (\<lambda>api.
           bindE (getProp api (Name ''transports'')) (\<lambda>transports.
           bindE (getProp transports (Index 0)) (\<lambda>transport.
        let (ws, h) = new h (New_WSServer transport)
        in bindE (getProp api (Name ''apis'')) (\<lambda>apis.
           bindE (mapApis apis cfg (chain this) (db this) (eth1 this) h) (\<lambda>(apiObjs, h).
        let (j, h) = new h (New_JSONRPC api [ws] apiObjs);
            this = this \<lparr> rpc := j \<rparr>
        in Inr (this, h))))))))))))))"

subsection \<open>Reading the result of the constructor\<close>

text \<open>Whether a value is a class, and the name of the class.\<close>

fun isClass :: "cval \<Rightarrow> bool" where
  "isClass (Class c) = True"
| "isClass v = False"

fun className :: "cval \<Rightarrow> string" where
  "className (Class c) = c"
| "className v = []"


text \<open>
  The heap in which the constructor allocates its services: the heap of the caller,
  with the default logger added when the caller gave none.
\<close>

definition loggerBase :: "ref \<Rightarrow> heap \<Rightarrow> heap" where
  "loggerBase lg h0 = (case lg of None \<Rightarrow> h0 @ [New_WinstonLogger] | Some a \<Rightarrow> h0)"

subsection \<open>An example configuration\<close>

text \<open>
  Options with every section that the constructor reads: one transport, two API
  classes, and a logging level for each module.
\<close>

definition exampleConf :: cval where
  "exampleConf = Rec
     [(Name ''db'', Rec [(Name ''name'', Str ''./beacon-db'')]),
      (Name ''network'', Rec [(Name ''maxPeers'', Num 25), (Name ''multiaddrs'', Arr [Str ''/ip4/127.0.0.1/tcp/30606''])]),
      (Name ''eth1'', Rec [(Name ''provider'', Inst ''JsonRpcProvider'' [(Name ''url'', Str ''http://localhost:8545'')])]),
      (Name ''chain'', Rec [(Name ''name'', Str ''mainnet'')]),
      (Name ''opPool'', Rec []),
      (Name ''sync'', Rec [(Name ''blockPerChunk'', Num 20)]),
      (Name ''api'', Rec [(Name ''transports'', Arr [Rec [(Name ''host'', Str ''127.0.0.1''), (Name ''port'', Num 9545)]]),
                        (Name ''apis'', Arr [Class ''BeaconApi'', Class ''ValidatorApi''])]),
      (Name ''loggingOptions'', Inst ''Map''
         [(ModuleKey DATABASE, Str ''info''), (ModuleKey NETWORK, Str ''info''),
          (ModuleKey ETH1, Str ''info''), (ModuleKey CHAIN, Str ''info''),
          (ModuleKey SYNC, Str ''info'')])]"

text \<open>
  Imports for the examples: the composition above as the merge on plain objects,
  the example configuration as the defaults, and a pending \<open>createPeerId()\<close>.
\<close>

definition exampleImports :: imported where
  "exampleImports = \<lparr> deepmerge = composeValue, defaultConf = exampleConf, createPeerId = Pending \<rparr>"

text \<open>
  The node and the heap that the constructor returns for the example: no option is
  overridden, the caller gives the configuration object at address 0 and no
  logger.
\<close>

definition exampleHeap :: heap where
  "exampleHeap =
     [Given ''config'',
      New_WinstonLogger,
      New_ReputationStore,
      New_LevelDbController
        (Rec [(Name ''name'', Str ''./beacon-db''), (Name ''loggingLevel'', Str ''info'')]) (Rec []),
      New_BeaconDB (Some 0) (Some 3),
      New_Promise Pending CreatePeerId,
      New_Promise Pending (Then (Some 5) InitializePeerInfo),
      New_Promise Pending (Then (Some 6) NewNodejsNode),
      New_SyncRpc (Rec [(Name ''blockPerChunk'', Num 20), (Name ''loggingLevel'', Str ''info'')])
        (Some 0) (Some 4) None None (Some 2),
      New_Libp2pNetwork
        (Rec [(Name ''maxPeers'', Num 25), (Name ''multiaddrs'', Arr [Str ''/ip4/127.0.0.1/tcp/30606'']),
              (Name ''loggingLevel'', Str ''info'')])
        (Some 0) (Some 7),
      New_EthersEth1Notifier
        (Rec [(Name ''provider'', Inst ''JsonRpcProvider'' [(Name ''url'', Str ''http://localhost:8545'')]),
              (Name ''loggingLevel'', Str ''info'')])
        (Some 0),
      New_OpPool (Rec []) (Some 10) (Some 4),
      New_BeaconChain (Rec [(Name ''name'', Str ''mainnet''), (Name ''loggingLevel'', Str ''info'')])
        (Some 0) (Some 4) (Some 10) (Some 11),
      New_Sync (Rec [(Name ''blockPerChunk'', Num 20), (Name ''loggingLevel'', Str ''info'')])
        (Some 0) (Some 4) (Some 10) (Some 12) (Some 11) (Some 9) (Some 2) (Some 8),
      New_WSServer (Rec [(Name ''host'', Str ''127.0.0.1''), (Name ''port'', Num 9545)]),
      New_Api ''BeaconApi'' (Rec []) (Some 0) (Some 12) (Some 4) (Some 10),
      New_Api ''ValidatorApi'' (Rec []) (Some 0) (Some 12) (Some 4) (Some 10),
      New_JSONRPC
        (Rec [(Name ''transports'', Arr [Rec [(Name ''host'', Str ''127.0.0.1''), (Name ''port'', Num 9545)]]),
              (Name ''apis'', Arr [Class ''BeaconApi'', Class ''ValidatorApi''])])
        [Some 14] [Some 15, Some 16]]"

definition exampleNode :: BeaconNode where
  "exampleNode = \<lparr> conf = exampleConf, config = Some 0, db = Some 4, eth1 = Some 10,
     network = Some 9, chain = Some 12, opPool = Some 11, rpc = Some 17, sync = Some 13,
     reps = Some 2, logger = Some 1 \<rparr>"



text \<open>
  A section whose default holds an opaque provider object, and an override that
  gives a plain object at the same key.
\<close>

definition providerDefault :: "(key \<times> cval) list" where
  "providerDefault =
     [(Name ''provider'', Inst ''JsonRpcProvider''
         [(Name ''url'', Str ''http://localhost:8545''),
          (Name ''network'', Rec [(Name ''name'', Str ''goerli'')])]),
      (Name ''depositContract'', Rec [(Name ''deployedAt'', Num 0)])]"

definition providerOverride :: "(key \<times> cval) list" where
  "providerOverride = [(Name ''provider'', Rec [(Name ''network'', Rec [(Name ''chainId'', Num 5)])])]"


section \<open>Properties of the lifecycle\<close>

text \<open>
  A run of awaits ends in one of three ways: every operation resolved; the
  operation at some position rejected; the operation at some position never
  settled. In the last two cases no later operation was invoked.
\<close>

lemma awaitAll_trace:
  "awaitAll srv cs (w, tr) = (r, (w', tr')) \<Longrightarrow>
     (r = Resolves \<and> tr' = tr @ resolved_steps cs) \<or>
     (\<exists>k e. k < length cs \<and> r = Rejects e \<and>
        tr' = tr @ resolved_steps (take k cs) @ [Invoke (cs ! k), Rejected (cs ! k) e]) \<or>
     (\<exists>k. k < length cs \<and> r = Pends \<and>
        tr' = tr @ resolved_steps (take k cs) @ [Invoke (cs ! k)])"
proof (induction cs arbitrary: w tr)
  case Nil
  then show ?case by (simp add: resolved_steps_def)
next
  case (Cons c cs)
  obtain o1 w1 where s1: "srv c w = (o1, w1)" by (cases "srv c w")
  show ?case
  proof (cases o1)
    case (Rejects e)
    with s1 Cons.prems have "r = Rejects e" "tr' = tr @ [Invoke c, Rejected c e]"
      by (simp_all add: andThen_def await_def)
    then have "0 < length (c # cs) \<and> r = Rejects e \<and>
        tr' = tr @ resolved_steps (take 0 (c # cs)) @ [Invoke ((c # cs) ! 0), Rejected ((c # cs) ! 0) e]"
      by (simp add: resolved_steps_def)
    then show ?thesis by blast
  next
    case Pends
    with s1 Cons.prems have "r = Pends" "tr' = tr @ [Invoke c]"
      by (simp_all add: andThen_def await_def)
    then have "0 < length (c # cs) \<and> r = Pends \<and>
        tr' = tr @ resolved_steps (take 0 (c # cs)) @ [Invoke ((c # cs) ! 0)]"
      by (simp add: resolved_steps_def)
    then show ?thesis by blast
  next
    case Resolves
    with s1 Cons.prems have rest: "awaitAll srv cs (w1, tr @ [Invoke c, Resolved c]) = (r, (w', tr'))"
      by (simp add: andThen_def await_def)
    from Cons.IH [OF rest] consider
        (all) "r = Resolves" "tr' = (tr @ [Invoke c, Resolved c]) @ resolved_steps cs"
      | (rejected) k e where "k < length cs" "r = Rejects e"
          "tr' = (tr @ [Invoke c, Resolved c]) @ resolved_steps (take k cs) @
                 [Invoke (cs ! k), Rejected (cs ! k) e]"
      | (pending) k where "k < length cs" "r = Pends"
          "tr' = (tr @ [Invoke c, Resolved c]) @ resolved_steps (take k cs) @ [Invoke (cs ! k)]"
      by blast
    then show ?thesis
    proof cases
      case all
      then show ?thesis by (simp add: resolved_steps_def)
    next
      case rejected
      then have "Suc k < length (c # cs) \<and> r = Rejects e \<and>
        tr' = tr @ resolved_steps (take (Suc k) (c # cs)) @
              [Invoke ((c # cs) ! Suc k), Rejected ((c # cs) ! Suc k) e]"
        by (simp add: resolved_steps_def)
      then show ?thesis by blast
    next
      case pending
      then have "Suc k < length (c # cs) \<and> r = Pends \<and>
        tr' = tr @ resolved_steps (take (Suc k) (c # cs)) @ [Invoke ((c # cs) ! Suc k)]"
        by (simp add: resolved_steps_def)
      then show ?thesis by blast
    qed
  qed
qed

lemma andThen_return: "andThen p (\<lambda>s. (Resolves, s)) = p"
  by (auto simp: andThen_def fun_eq_iff split: prod.splits outcome.splits)


lemma stop_awaitAll: "stop srv = awaitAll srv (map Stop stop_order)"
  by (simp add: stop_def stop_order_def andThen_return)


lemma stop_order_length: "length stop_order = 7"
  by (simp add: stop_order_def)



lemma stop_trace:
  assumes "stop srv (w, tr) = (r, (w', tr'))"
  shows "(r = Resolves \<and> tr' = tr @ resolved_steps (map Stop stop_order)) \<or>
     (\<exists>k e. k < 7 \<and> r = Rejects e \<and>
        tr' = tr @ resolved_steps (map Stop (take k stop_order)) @
              [Invoke (Stop (stop_order ! k)), Rejected (Stop (stop_order ! k)) e]) \<or>
     (\<exists>k. k < 7 \<and> r = Pends \<and>
        tr' = tr @ resolved_steps (map Stop (take k stop_order)) @
              [Invoke (Stop (stop_order ! k))])"
proof -
  from assms have "awaitAll srv (map Stop stop_order) (w, tr) = (r, (w', tr'))"
    by (simp add: stop_awaitAll)
  from awaitAll_trace [OF this] consider
      (all) "r = Resolves" "tr' = tr @ resolved_steps (map Stop stop_order)"
    | (rejected) k e where "k < length (map Stop stop_order)" "r = Rejects e"
        "tr' = tr @ resolved_steps (take k (map Stop stop_order)) @
               [Invoke (map Stop stop_order ! k), Rejected (map Stop stop_order ! k) e]"
    | (pending) k where "k < length (map Stop stop_order)" "r = Pends"
        "tr' = tr @ resolved_steps (take k (map Stop stop_order)) @
               [Invoke (map Stop stop_order ! k)]"
    by blast
  then show ?thesis
  proof cases
    case all
    then show ?thesis by simp
  next
    case rejected
    then have "k < 7 \<and> r = Rejects e \<and>
        tr' = tr @ resolved_steps (map Stop (take k stop_order)) @
              [Invoke (Stop (stop_order ! k)), Rejected (Stop (stop_order ! k)) e]"
      by (simp add: take_map stop_order_length)
    then show ?thesis by blast
  next
    case pending
    then have "k < 7 \<and> r = Pends \<and>
        tr' = tr @ resolved_steps (map Stop (take k stop_order)) @
              [Invoke (Stop (stop_order ! k))]"
      by (simp add: take_map stop_order_length)
    then show ?thesis by blast
  qed
qed

lemma invoked_append: "invoked (xs @ ys) = invoked xs @ invoked ys"
  by (induction xs rule: invoked.induct) simp_all

lemma completed_append: "completed (xs @ ys) = completed xs @ completed ys"
  by (induction xs rule: completed.induct) simp_all

lemma invoked_resolved_steps: "invoked (resolved_steps cs) = cs"
  by (induction cs) (simp_all add: resolved_steps_def)

lemma completed_resolved_steps: "completed (resolved_steps cs) = cs"
  by (induction cs) (simp_all add: resolved_steps_def)


text \<open>What a run of awaits over the first \<open>k\<close> operations and one more invocation shows.\<close>

lemma invoked_prefix:
  "k < length cs \<Longrightarrow> invoked (resolved_steps (take k cs) @ Invoke (cs ! k) # rest) =
     take (Suc k) cs @ invoked rest"
  by (simp add: invoked_append invoked_resolved_steps take_Suc_conv_app_nth)

lemma completed_prefix:
  "completed (resolved_steps (take k cs) @ Invoke c # rest) = take k cs @ completed rest"
  by (simp add: completed_append completed_resolved_steps)







text \<open>
  Claim C3, as the code has it. \<open>stop()\<close> goes through the stop order and halts at
  the first stop that does not resolve. Either every one of the seven stops was
  invoked and resolved, and \<open>stop\<close> completes with no value; or there is a position
  \<open>k\<close> such that the stops before it resolved, the stop at \<open>k\<close> rejected with \<open>e\<close>,
  no later stop was invoked, and \<open>stop\<close> rejects with this \<open>e\<close> alone; or the stop at
  some position \<open>k\<close> never settled, no later stop was invoked, and \<open>stop\<close> never
  settles.
\<close>

theorem stop_halts_at_first_failure:
  "stop srv (w, tr) = (r, (w', tr')) \<Longrightarrow>
     (r = Resolves \<and> tr' = tr @ resolved_steps (map Stop stop_order)) \<or>
     (\<exists>k e. k < 7 \<and> r = Rejects e \<and>
        tr' = tr @ resolved_steps (map Stop (take k stop_order)) @
                [Invoke (Stop (stop_order ! k)), Rejected (Stop (stop_order ! k)) e]) \<or>
     (\<exists>k. k < 7 \<and> r = Pends \<and>
        tr' = tr @ resolved_steps (map Stop (take k stop_order)) @
                [Invoke (Stop (stop_order ! k))])"
  by (rule stop_trace)

theorem stop_halts_at_first_failure_witness:
  "stop (failing_at (Stop OpPool) ''pool busy'') ((), []) =
     (Rejects (Cause ''pool busy''), ((),
        [Invoke (Stop Rpc), Resolved (Stop Rpc),
         Invoke (Stop Sync), Resolved (Stop Sync),
         Invoke (Stop OpPool), Rejected (Stop OpPool) (Cause ''pool busy'')])) \<and>
   (\<exists>k. k < 7 \<and>
      [Invoke (Stop Rpc), Resolved (Stop Rpc),
       Invoke (Stop Sync), Resolved (Stop Sync),
       Invoke (Stop OpPool), Rejected (Stop OpPool) (Cause ''pool busy'')] =
      resolved_steps (map Stop (take k stop_order)) @
        [Invoke (Stop (stop_order ! k)), Rejected (Stop (stop_order ! k)) (Cause ''pool busy'')])"
proof -
  have run: "stop (failing_at (Stop OpPool) ''pool busy'') ((), []) =
     (Rejects (Cause ''pool busy''), ((),
        [Invoke (Stop Rpc), Resolved (Stop Rpc),
         Invoke (Stop Sync), Resolved (Stop Sync),
         Invoke (Stop OpPool), Rejected (Stop OpPool) (Cause ''pool busy'')]))"
    by (simp add: stop_def andThen_def await_def failing_at_def)
  from stop_halts_at_first_failure [OF run] show ?thesis using run by auto
qed

text \<open>
  Claim C3 as stated fails: when the stop of the API server fails, no other stop is
  attempted (storage and network are never asked to release), and \<open>stop()\<close> rejects
  with the cause itself, not with a \<open>ShutdownError\<close> that lists the failure.
\<close>

theorem stop_not_all_attempted_counterexample:
  "invoked (snd (snd (stop (failing_at (Stop Rpc) ''socket busy'') ((), [])))) = [Stop Rpc] \<and>
   fst (stop (failing_at (Stop Rpc) ''socket busy'') ((), [])) = Rejects (Cause ''socket busy'') \<and>
   fst (stop (failing_at (Stop Rpc) ''socket busy'') ((), [])) \<noteq>
     Rejects (ShutdownError [(Rpc, Cause ''socket busy'')])"
  by (simp add: stop_def andThen_def await_def failing_at_def)




section \<open>Properties of the path resolution\<close>

text \<open>
  Whatever \<open>getGlobalPaths\<close> and \<open>joinIfRelative\<close> are, the peer store directory is
  computed from the storage override, and an override of the peer store directory
  changes nothing as long as the root directory stays the same.
\<close>

lemma peerStoreDir_from_dbDir:
  "IBeaconPaths.peerStoreDir (getBeaconPaths G J opts) =
     J (IGlobalPaths.rootDir (G opts)) (or_default (options.dbDir opts) ''peerstore'')"
  by (simp add: getBeaconPaths_def Let_def)

lemma peerStoreDir_override_ignored:
  "G (opts \<lparr> options.peerStoreDir := x \<rparr>) = G opts \<Longrightarrow>
     IBeaconPaths.peerStoreDir (getBeaconPaths G J (opts \<lparr> options.peerStoreDir := x \<rparr>)) =
     IBeaconPaths.peerStoreDir (getBeaconPaths G J opts)"
  by (simp add: getBeaconPaths_def Let_def)

text \<open>
  Claim C1 says that the peer store directory follows the \<open>peerStoreDir\<close> override
  and never the storage override \<open>dbDir\<close>. The code computes it from
  \<open>options.dbDir || "peerstore"\<close>: with the storage directory overridden, the peer
  store directory is the storage directory; with the peer store directory
  overridden, the override is ignored and the default name is used.
\<close>

theorem peerStoreDir_follows_dbDir:
  "IBeaconPaths.peerStoreDir (getBeaconPaths getGlobalPaths joinIfRelative
       ((only_root ''/data/node1'') \<lparr> options.dbDir := Some ''/custom/storage'' \<rparr>))
     = ''/custom/storage'' \<and>
   IBeaconPaths.dbDir (getBeaconPaths getGlobalPaths joinIfRelative
       ((only_root ''/data/node1'') \<lparr> options.dbDir := Some ''/custom/storage'' \<rparr>))
     = ''/custom/storage'' \<and>
   IBeaconPaths.peerStoreDir (getBeaconPaths getGlobalPaths joinIfRelative
       ((only_root ''/data/node1'') \<lparr> options.peerStoreDir := Some ''/custom/peers'' \<rparr>))
     = ''/data/node1/peerstore''"
  by (simp add: getBeaconPaths_def getGlobalPaths_def joinIfRelative_def isAbsolute_def
      or_default_def and_then_def only_root_def Let_def)

section \<open>Properties of the composition\<close>









lemma composeValue_plain:
  "composeValue d ov =
     (if isPlainObject d \<and> isPlainObject ov then Rec (compose (spread d) (spread ov)) else ov)"
  by (cases d; cases ov) (simp_all del: compose.simps)

lemma map_of_merged_defaults:
  "map_of (map (\<lambda>(k, d). (k, case map_of os k of None \<Rightarrow> d | Some ov \<Rightarrow> composeValue d ov)) ds) k =
     map_option (\<lambda>d. case map_of os k of None \<Rightarrow> d | Some ov \<Rightarrow> composeValue d ov) (map_of ds k)"
  by (induction ds) (auto split: option.splits)

lemma map_of_new_overrides:
  "map_of (filter (\<lambda>(k, ov). map_of ds k = None) os) k =
     (if map_of ds k = None then map_of os k else None)"
  by (induction os) auto

lemma map_of_compose:
  "map_of (compose ds os) k =
     (case (map_of ds k, map_of os k) of
        (None, r) \<Rightarrow> r
      | (Some d, None) \<Rightarrow> Some d
      | (Some d, Some ov) \<Rightarrow> Some (composeValue d ov))"
proof -
  have "map_of (compose ds os) k =
      (case map_of (map (\<lambda>(k, d). (k, case map_of os k of None \<Rightarrow> d | Some ov \<Rightarrow> composeValue d ov)) ds) k of
         None \<Rightarrow> map_of (filter (\<lambda>(k, ov). map_of ds k = None) os) k
       | Some v \<Rightarrow> Some v)"
    by (simp add: map_add_def)
  then show ?thesis
    by (simp add: map_of_merged_defaults map_of_new_overrides split: option.splits)
qed

text \<open>
  Claim C8. What the composition holds at a key is decided by the two values at
  that key: a key of one tree only keeps its value; at a key of both trees the
  merge recurses only when both values are plain structural records, and in every
  other case (an array, an instance of a class, a scalar, on either side) the
  result is the override itself, whole. In particular an opaque default under a
  plain-looking override is replaced by the override, with no field of the default
  merged in.
\<close>

theorem compose_replaces_wholesale:
  "map_of (compose D Ov) k =
     (case (map_of D k, map_of Ov k) of
        (None, None) \<Rightarrow> None
      | (None, Some ov) \<Rightarrow> Some ov
      | (Some d, None) \<Rightarrow> Some d
      | (Some d, Some ov) \<Rightarrow>
          Some (if isPlainObject d \<and> isPlainObject ov
                then Rec (compose (spread d) (spread ov)) else ov))"
  by (simp add: map_of_compose composeValue_plain del: compose.simps split: option.splits)



theorem compose_replaces_wholesale_witness:
  "map_of (compose providerDefault providerOverride) (Name ''provider'') =
     Some (Rec [(Name ''network'', Rec [(Name ''chainId'', Num 5)])])"
  using compose_replaces_wholesale [of providerDefault providerOverride "Name ''provider''"]
  by (simp add: providerDefault_def providerOverride_def del: compose.simps)

section \<open>Properties of the construction\<close>

lemma bindE_Inr [simp]: "bindE (Inr x) f = f x"
  by (simp add: bindE_def)

lemma bindE_Inl [simp]: "bindE (Inl e) f = Inl e"
  by (simp add: bindE_def)

lemma bindE_eq_Inr: "bindE m f = Inr y \<longleftrightarrow> (\<exists>x. m = Inr x \<and> f x = Inr y)"
  by (cases m) simp_all

lemma newApis_shape:
  "newApis as cfg ch d e h = Inr (rs, h') \<Longrightarrow>
     list_all isClass as \<and>
     h' = h @ map (\<lambda>v. New_Api (className v) (Rec []) cfg ch d e) as \<and>
     rs = map (\<lambda>i. Some (length h + i)) [0 ..< length as]"
proof (induction as cfg ch d e h arbitrary: rs h' rule: newApis.induct)
  case (1 cfg ch d e h)
  then show ?case by simp
next
  case (2 c as cfg ch d e h)
  from "2.prems" obtain rs1 where
    rest: "newApis as cfg ch d e (h @ [New_Api c (Rec []) cfg ch d e]) = Inr (rs1, h')"
    and rs: "rs = Some (length h) # rs1"
    by (auto simp: new_def bindE_eq_Inr)
  have "(Some (length h), h @ [New_Api c (Rec []) cfg ch d e]) = new h (New_Api c (Rec []) cfg ch d e)"
    by (simp add: new_def)
  from "2.IH" [OF refl this rest] have ih: "list_all isClass as"
    "h' = (h @ [New_Api c (Rec []) cfg ch d e]) @ map (\<lambda>v. New_Api (className v) (Rec []) cfg ch d e) as"
    "rs1 = map (\<lambda>i. Some (length (h @ [New_Api c (Rec []) cfg ch d e]) + i)) [0 ..< length as]"
    by (simp_all add: new_def)
  show ?case using ih rs by (simp add: map_upt_Suc del: upt_Suc)
qed simp_all

lemma mapApis_shape:
  "mapApis apis cfg ch d e h = Inr (rs, h') \<Longrightarrow>
     \<exists>as. apis = Arr as \<and> list_all isClass as \<and>
       h' = h @ map (\<lambda>v. New_Api (className v) (Rec []) cfg ch d e) as \<and>
       rs = map (\<lambda>i. Some (length h + i)) [0 ..< length as]"
  by (cases apis) (auto dest: newApis_shape)


lemma constructor_shape:
  assumes "BeaconNode_constructor imp opts cfg lg h0 = Inr (this, h')"
  shows "\<exists>dbOpts rpcOpts networkOpts eth1Opts opPoolOpts chainOpts syncOpts api transports transport as.
    withLoggingLevel (deepmerge imp (defaultConf imp) opts) ''db'' DATABASE = Inr dbOpts \<and>
    withLoggingLevel (deepmerge imp (defaultConf imp) opts) ''sync'' NETWORK = Inr rpcOpts \<and>
    withLoggingLevel (deepmerge imp (defaultConf imp) opts) ''network'' NETWORK = Inr networkOpts \<and>
    withLoggingLevel (deepmerge imp (defaultConf imp) opts) ''eth1'' ETH1 = Inr eth1Opts \<and>
    getProp (deepmerge imp (defaultConf imp) opts) (Name ''opPool'') = Inr opPoolOpts \<and>
    withLoggingLevel (deepmerge imp (defaultConf imp) opts) ''chain'' CHAIN = Inr chainOpts \<and>
    withLoggingLevel (deepmerge imp (defaultConf imp) opts) ''sync'' SYNC = Inr syncOpts \<and>
    getProp (deepmerge imp (defaultConf imp) opts) (Name ''api'') = Inr api \<and>
    getProp api (Name ''transports'') = Inr transports \<and>
    getProp transports (Index 0) = Inr transport \<and>
    getProp api (Name ''apis'') = Inr (Arr as) \<and>
    list_all isClass as \<and>
    h' = loggerBase lg h0 @
      [New_ReputationStore,
       New_LevelDbController dbOpts (Rec []),
       New_BeaconDB cfg (Some (length (loggerBase lg h0) + 1)),
       New_Promise (createPeerId imp) CreatePeerId,
       New_Promise Pending (Then (Some (length (loggerBase lg h0) + 3)) InitializePeerInfo),
       New_Promise Pending (Then (Some (length (loggerBase lg h0) + 4)) NewNodejsNode),
       New_SyncRpc rpcOpts cfg (Some (length (loggerBase lg h0) + 2)) None None (Some (length (loggerBase lg h0))),
       New_Libp2pNetwork networkOpts cfg (Some (length (loggerBase lg h0) + 5)),
       New_EthersEth1Notifier eth1Opts cfg,
       New_OpPool opPoolOpts (Some (length (loggerBase lg h0) + 8)) (Some (length (loggerBase lg h0) + 2)),
       New_BeaconChain chainOpts cfg (Some (length (loggerBase lg h0) + 2)) (Some (length (loggerBase lg h0) + 8))
         (Some (length (loggerBase lg h0) + 9)),
       New_Sync syncOpts cfg (Some (length (loggerBase lg h0) + 2)) (Some (length (loggerBase lg h0) + 8))
         (Some (length (loggerBase lg h0) + 10)) (Some (length (loggerBase lg h0) + 9))
         (Some (length (loggerBase lg h0) + 7)) (Some (length (loggerBase lg h0)))
         (Some (length (loggerBase lg h0) + 6)),
       New_WSServer transport] @
      map (\<lambda>v. New_Api (className v) (Rec []) cfg (Some (length (loggerBase lg h0) + 10))
             (Some (length (loggerBase lg h0) + 2)) (Some (length (loggerBase lg h0) + 8))) as @
      [New_JSONRPC api [Some (length (loggerBase lg h0) + 12)]
         (map (\<lambda>i. Some (length (loggerBase lg h0) + 13 + i)) [0 ..< length as])] \<and>
    this = \<lparr> conf = deepmerge imp (defaultConf imp) opts, config = cfg,
      db = Some (length (loggerBase lg h0) + 2),
      eth1 = Some (length (loggerBase lg h0) + 8),
      network = Some (length (loggerBase lg h0) + 7),
      chain = Some (length (loggerBase lg h0) + 10),
      opPool = Some (length (loggerBase lg h0) + 9),
      rpc = Some (length (loggerBase lg h0) + 13 + length as),
      sync = Some (length (loggerBase lg h0) + 11),
      reps = Some (length (loggerBase lg h0)),
      logger = (case lg of None \<Rightarrow> Some (length h0) | Some a \<Rightarrow> lg) \<rparr>"
  using assms
  apply (cases lg)
   apply (clarsimp simp: BeaconNode_constructor_def Let_def new_def bindE_eq_Inr this0_def loggerBase_def
      split: prod.splits dest!: mapApis_shape)
   apply (clarsimp simp: BeaconNode_constructor_def Let_def new_def bindE_eq_Inr this0_def loggerBase_def
      split: prod.splits dest!: mapApis_shape)
  done

lemma deref_base_plus:
  "k < length xs \<Longrightarrow> deref (b @ xs) (Some (length b + k)) = Some (xs ! k)"
  by (simp add: deref_def)

lemma constructor_example:
  "BeaconNode_constructor exampleImports (Rec []) (Some 0) None [Given ''config''] =
     Inr (exampleNode, exampleHeap)"
  by (simp add: BeaconNode_constructor_def exampleImports_def exampleConf_def this0_def new_def
      withLoggingLevel_def lookup_def Let_def exampleNode_def exampleHeap_def)

text \<open>
  Claim C6 says that every consumer, the sync RPC helper included, is given the
  node's own chain, network, storage and reputation tracker, never a missing value.
  The code builds the sync RPC helper before it assigns \<open>this.network\<close> and
  \<open>this.chain\<close>: whenever the constructor returns, the node owns a chain and a
  network, the synchronization engine was given both, and the sync RPC helper that
  the engine uses was given \<open>undefined\<close> for both (its storage and its reputation
  tracker are the node's).
\<close>

theorem syncRpc_chain_network_undefined:
  "BeaconNode_constructor imp opts cfg lg h0 = Inr (this, h') \<Longrightarrow>
     \<exists>syncOpts rpcOpts c n r.
       chain this = Some c \<and> network this = Some n \<and>
       deref h' (sync this) =
         Some (New_Sync syncOpts cfg (db this) (eth1 this) (Some c) (opPool this) (Some n) (reps this) (Some r)) \<and>
       deref h' (Some r) = Some (New_SyncRpc rpcOpts cfg (db this) None None (reps this))"
proof -
  assume a: "BeaconNode_constructor imp opts cfg lg h0 = Inr (this, h')"
  from constructor_shape [OF a] show ?thesis
    by (clarsimp simp: deref_base_plus)
qed

theorem syncRpc_chain_network_undefined_witness:
  "BeaconNode_constructor exampleImports (Rec []) (Some 0) None [Given ''config''] =
     Inr (exampleNode, exampleHeap) \<and>
   chain exampleNode = Some 12 \<and> network exampleNode = Some 9 \<and>
   map_option sync_chain (deref exampleHeap (sync exampleNode)) = Some (Some 12) \<and>
   map_option sync_network (deref exampleHeap (sync exampleNode)) = Some (Some 9) \<and>
   map_option sync_rpc (deref exampleHeap (sync exampleNode)) = Some (Some 8) \<and>
   map_option rpc_chain (deref exampleHeap (Some 8)) = Some None \<and>
   map_option rpc_network (deref exampleHeap (Some 8)) = Some None"
proof -
  from syncRpc_chain_network_undefined [OF constructor_example]
  obtain syncOpts rpcOpts c n r where
    w: "chain exampleNode = Some c" "network exampleNode = Some n"
       "deref exampleHeap (sync exampleNode) =
          Some (New_Sync syncOpts (Some 0) (db exampleNode) (eth1 exampleNode) (Some c)
                  (opPool exampleNode) (Some n) (reps exampleNode) (Some r))"
       "deref exampleHeap (Some r) =
          Some (New_SyncRpc rpcOpts (Some 0) (db exampleNode) None None (reps exampleNode))"
    by blast
  have c: "c = 12" and n: "n = 9" using w(1,2) by (simp_all add: exampleNode_def)
  have "deref exampleHeap (sync exampleNode) = Some (exampleHeap ! 13)"
    by (simp add: exampleNode_def exampleHeap_def deref_def)
  with w(3) have r: "r = 8" by (simp add: exampleHeap_def)
  show ?thesis using w c n r constructor_example by simp
qed




















end
